theory Spec2Isabelle
  imports Main
begin

section \<open>The peerscanner host actor (host.go)\<close>

text \<open>
  A shallow embedding of \<^verbatim>\<open>peerscanner/host.go\<close>. A Go \<^verbatim>\<open>error\<close> is the text its
  \<^verbatim>\<open>Error()\<close> method returns (the code only ever inspects that text), and \<^verbatim>\<open>nil\<close> is
  \<open>None\<close>. A \<^verbatim>\<open>time.Time\<close> is a number of nanoseconds counted from the zero instant,
  so \<^verbatim>\<open>time.Time{}\<close> is \<open>0\<close>. Calls to \<^verbatim>\<open>log.Tracef\<close> and \<^verbatim>\<open>log.Debugf\<close> are left
  out; the \<^verbatim>\<open>log.Error\<close> call of \<^verbatim>\<open>isAbleToProxy\<close> is kept as an output.
\<close>

type_synonym error = string
type_synonym time = int

subsection \<open>Strings\<close>

text \<open>\<^verbatim>\<open>strings.Contains(s, sub)\<close>: \<open>sub\<close> occurs in \<open>s\<close> as a contiguous run.\<close>

fun strings_Contains :: "string \<Rightarrow> string \<Rightarrow> bool" where
  "strings_Contains [] sub = (sub = [])"
| "strings_Contains (c # cs) sub =
     (take (length sub) (c # cs) = sub \<or> strings_Contains cs sub)"

text \<open>\<^verbatim>\<open>strings.Split(s, ".")[0]\<close>: the part of \<open>s\<close> before its first dot.\<close>

definition first_label :: "string \<Rightarrow> string" where
  "first_label s = takeWhile (\<lambda>c. c \<noteq> CHR ''.'') s"

text \<open>The \<^verbatim>\<open>%d\<close> verb of \<^verbatim>\<open>fmt\<close> on an \<^verbatim>\<open>int\<close>.\<close>

fun fmt_nat :: "nat \<Rightarrow> string" where
  "fmt_nat n =
     (if n < 10 then [''0123456789'' ! n]
      else fmt_nat (n div 10) @ [''0123456789'' ! (n mod 10)])"

declare fmt_nat.simps [simp del]

definition fmt_d :: "int \<Rightarrow> string" where
  "fmt_d i = (if i < 0 then CHR ''-'' # fmt_nat (nat (- i)) else fmt_nat (nat i))"

text \<open>\<^verbatim>\<open>isDuplicateError\<close>, on an error that is not nil.\<close>

definition isDuplicateError :: "error \<Rightarrow> bool" where
  "isDuplicateError err = strings_Contains err ''The record already exists.''"

subsection \<open>Data\<close>

text \<open>
  \<^verbatim>\<open>*cloudflare.Record\<close> is a handle of the DNS client library; host.go stores it, tests
  it against nil and hands it back to the library, and never reads a field of it.
\<close>

type_synonym cf_record = nat

text \<open>\<^verbatim>\<open>cfr.Distribution\<close>: host.go reads its \<^verbatim>\<open>Status\<close> field only.\<close>

record distribution =
  Status :: string

record status =
  online :: bool
  connectionRefused :: bool

text \<open>
  Modelled from the spec: the type \<^verbatim>\<open>group\<close> with its methods \<^verbatim>\<open>register\<close> and
  \<^verbatim>\<open>deregister\<close> is declared in the peerscanner package outside host.go; host.go
  only builds \<^verbatim>\<open>&group{subdomain: ...}\<close> values and calls the two methods. Spec 4.3:
  a rotation group holds an unordered set of member hosts; register and deregister are
  idempotent set operations keyed by host identity; register on a host already present
  and deregister on an absent host are no-ops, or report a duplicate / not-found condition
  that the caller treats as non-fatal. The identity of a host is its \<^verbatim>\<open>ip\<close>, the one
  attribute of a host that never changes. Whether a repeated register is silent or
  reports the duplicate condition is the parameter \<open>reports\<close>.
\<close>

record group =
  subdomain :: string
  members :: "string set"

definition group_register :: "bool \<Rightarrow> group \<Rightarrow> string \<Rightarrow> error option \<times> group" where
  "group_register reports g hid =
     (if hid \<in> members g
      then (if reports then Some ''The record already exists.'' else None, g)
      else (None, g\<lparr>members := insert hid (members g)\<rparr>))"

definition group_deregister :: "group \<Rightarrow> string \<Rightarrow> group" where
  "group_deregister g hid = g\<lparr>members := members g - {hid}\<rparr>"

text \<open>
  The host struct. The channels are the events of the run loop below; the proxied HTTP
  client is the network outcome handed to the prober. A Go map of groups is a list of
  (key, group) pairs, ranged over in list order (Go leaves the order of a range over a
  map open).
\<close>

record host =
  name :: string
  ip :: string
  cdnRecord :: "cf_record option"
  noCdnRecord :: "cf_record option"
  cfrDist :: "distribution option"
  cdnGroups :: "(string \<times> group) list"
  noCdnGroups :: "(string \<times> group) list"
  lastSuccess :: time
  lastTest :: time
  reportedHost :: string

text \<open>
  What host.go uses and does not define: the package-level values \<^verbatim>\<open>cfldomain\<close>,
  \<^verbatim>\<open>noCdnPrefix\<close> and the six group names, the function \<^verbatim>\<open>isCdnFallback\<close>, and the
  clients of the DNS provider (\<^verbatim>\<open>cflutil\<close>) and of the distribution provider
  (\<^verbatim>\<open>cfr\<close>, \<^verbatim>\<open>cfrutil\<close>). They are parameters. \<open>'w\<close> is the state of the two providers;
  every provider call takes it and returns it updated.
\<close>

record 'w env =
  cfldomain :: string
  noCdnPrefix :: string
  RoundRobin :: string
  Fallbacks :: string
  Peers :: string
  RoundRobinNoCdn :: string
  FallbacksNoCdn :: string
  PeersNoCdn :: string
  isCdnFallback :: "string \<Rightarrow> bool"
  group_reports :: bool
  cflutil_Register :: "string \<Rightarrow> string \<Rightarrow> 'w \<Rightarrow> (cf_record option \<times> error option) \<times> 'w"
  cflutil_DestroyRecord :: "cf_record option \<Rightarrow> 'w \<Rightarrow> error option \<times> 'w"
  cfr_CreateDistribution ::
    "string \<Rightarrow> string \<Rightarrow> string \<Rightarrow> 'w \<Rightarrow> (distribution option \<times> error option) \<times> 'w"
  cfr_RefreshStatus :: "distribution \<Rightarrow> 'w \<Rightarrow> distribution \<times> 'w"

subsection \<open>Small methods\<close>

definition String :: "host \<Rightarrow> string" where
  "String h = name h @ '' ('' @ ip h @ '')''"

definition fullName :: "'w env \<Rightarrow> host \<Rightarrow> string" where
  "fullName env h = name h @ ''.'' @ cfldomain env"

definition isFallback :: "'w env \<Rightarrow> host \<Rightarrow> bool" where
  "isFallback env h = isCdnFallback env (name h)"

definition new_group :: "string \<Rightarrow> string \<times> group" where
  "new_group sd = (sd, \<lparr>subdomain = sd, members = {}\<rparr>)"

definition newHost :: "'w env \<Rightarrow> string \<Rightarrow> string \<Rightarrow> cf_record option \<Rightarrow> host" where
  "newHost env nm addr record =
     (let h = \<lparr>name = nm, ip = addr, cdnRecord = record, noCdnRecord = None,
                cfrDist = None, cdnGroups = [], noCdnGroups = [],
                lastSuccess = 0, lastTest = 0, reportedHost = []\<rparr>
      in if isFallback env h
         then h\<lparr>cdnGroups := [new_group (RoundRobin env), new_group (Fallbacks env)],
                noCdnGroups := [new_group (RoundRobinNoCdn env), new_group (FallbacksNoCdn env)]\<rparr>
         else h\<lparr>cdnGroups := [new_group (Peers env)],
                noCdnGroups := [new_group (PeersNoCdn env)]\<rparr>)"

definition doInitCfrDist :: "'w env \<Rightarrow> host \<times> 'w \<Rightarrow> host \<times> 'w" where
  "doInitCfrDist env s =
     (let (h, w) = s;
          (h1, w1) =
            (case cfrDist h of
               Some d \<Rightarrow>
                 if Status d = ''InProgress''
                 then (let (d', w') = cfr_RefreshStatus env d w in (h\<lparr>cfrDist := Some d'\<rparr>, w'))
                 else (h, w)
             | None \<Rightarrow> (h, w))
      in case cfrDist h1 of
           None \<Rightarrow>
             (let ((dist, err), w2) =
                    cfr_CreateDistribution env (first_label (name h1))
                      (noCdnPrefix env @ name h1) ''created by peerscanner'' w1
              in if err = None then (h1\<lparr>cfrDist := dist\<rparr>, w2) else (h1, w2))
         | Some d \<Rightarrow> (h1, w1))"

subsection \<open>Managing DNS\<close>

definition doDeregisterCdnHost :: "'w env \<Rightarrow> host \<times> 'w \<Rightarrow> host \<times> 'w" where
  "doDeregisterCdnHost env s =
     (let (h, w) = s; (err, w') = cflutil_DestroyRecord env (cdnRecord h) w
      in if err \<noteq> None then (h, w') else (h\<lparr>cdnRecord := None\<rparr>, w'))"

definition doDeregisterNoCdnHost :: "'w env \<Rightarrow> host \<times> 'w \<Rightarrow> host \<times> 'w" where
  "doDeregisterNoCdnHost env s =
     (let (h, w) = s; (err, w') = cflutil_DestroyRecord env (noCdnRecord h) w
      in if err \<noteq> None then (h, w') else (h\<lparr>noCdnRecord := None\<rparr>, w'))"

definition deregisterCdnHost :: "'w env \<Rightarrow> host \<times> 'w \<Rightarrow> host \<times> 'w" where
  "deregisterCdnHost env s =
     (let (h, w) = s
      in if cdnRecord h = None then s
         else if isFallback env h then s
         else doDeregisterCdnHost env s)"

definition deregisterNoCdnHost :: "'w env \<Rightarrow> host \<times> 'w \<Rightarrow> host \<times> 'w" where
  "deregisterNoCdnHost env s =
     (let (h, w) = s
      in if noCdnRecord h = None then s
         else if isFallback env h then s
         else doDeregisterNoCdnHost env s)"

definition deregister_groups :: "string \<Rightarrow> (string \<times> group) list \<Rightarrow> (string \<times> group) list" where
  "deregister_groups hid gs = map (\<lambda>(k, g). (k, group_deregister g hid)) gs"

definition deregisterFromRotations :: "host \<Rightarrow> host" where
  "deregisterFromRotations h =
     (let h1 = h\<lparr>cdnGroups := deregister_groups (ip h) (cdnGroups h)\<rparr>
      in h1\<lparr>noCdnGroups := deregister_groups (ip h1) (noCdnGroups h1)\<rparr>)"

definition deregister :: "'w env \<Rightarrow> host \<times> 'w \<Rightarrow> host \<times> 'w" where
  "deregister env s =
     (let (h, w) = deregisterNoCdnHost env (deregisterCdnHost env s)
      in (deregisterFromRotations h, w))"

definition registerCdnHost :: "'w env \<Rightarrow> host \<times> 'w \<Rightarrow> error option \<times> host \<times> 'w" where
  "registerCdnHost env s =
     (let (h, w) = s
      in if cdnRecord h \<noteq> None then (None, s)
         else (let ((rec, err), w') = cflutil_Register env (name h) (ip h) w
               in if err = None \<or> isDuplicateError (the err)
                  then (None, h\<lparr>cdnRecord := rec\<rparr>, w')
                  else (err, h, w')))"

definition registerNoCdnHost :: "'w env \<Rightarrow> host \<times> 'w \<Rightarrow> error option \<times> host \<times> 'w" where
  "registerNoCdnHost env s =
     (let (h, w) = s
      in if noCdnRecord h \<noteq> None then (None, s)
         else (let ((rec, err), w') = cflutil_Register env (noCdnPrefix env @ name h) (ip h) w
               in if err = None \<or> isDuplicateError (the err)
                  then (None, h\<lparr>noCdnRecord := rec\<rparr>, w')
                  else (err, h, w')))"

text \<open>
  The loop of \<^verbatim>\<open>registerToCdnRotations\<close> and \<^verbatim>\<open>registerToNoCdnRotations\<close>: it returns
  at the first error that is not the duplicate condition and leaves the later groups as
  they are.
\<close>

fun register_groups ::
  "bool \<Rightarrow> string \<Rightarrow> (string \<times> group) list \<Rightarrow> error option \<times> (string \<times> group) list" where
  "register_groups reports hid [] = (None, [])"
| "register_groups reports hid ((k, g) # gs) =
     (let (err, g') = group_register reports g hid
      in if err \<noteq> None \<and> \<not> isDuplicateError (the err) then (err, (k, g') # gs)
         else (let (e, gs') = register_groups reports hid gs in (e, (k, g') # gs')))"

definition registerToCdnRotations :: "'w env \<Rightarrow> host \<Rightarrow> error option \<times> host" where
  "registerToCdnRotations env h =
     (let (err, gs) = register_groups (group_reports env) (ip h) (cdnGroups h)
      in (err, h\<lparr>cdnGroups := gs\<rparr>))"

definition registerToNoCdnRotations :: "'w env \<Rightarrow> host \<Rightarrow> error option \<times> host" where
  "registerToNoCdnRotations env h =
     (let (err, gs) = register_groups (group_reports env) (ip h) (noCdnGroups h)
      in (err, h\<lparr>noCdnGroups := gs\<rparr>))"

definition registerCdn :: "'w env \<Rightarrow> host \<times> 'w \<Rightarrow> error option \<times> host \<times> 'w" where
  "registerCdn env s =
     (case registerCdnHost env s of
        (Some err, s1) \<Rightarrow> (Some (''Unable to register host: '' @ err), s1)
      | (None, h1, w1) \<Rightarrow>
          (case registerToCdnRotations env h1 of
             (Some err, h2) \<Rightarrow> (Some (''Unable to register rotations: '' @ err), h2, w1)
           | (None, h2) \<Rightarrow> (None, h2, w1)))"

definition registerNoCdn :: "'w env \<Rightarrow> host \<times> 'w \<Rightarrow> error option \<times> host \<times> 'w" where
  "registerNoCdn env s =
     (case registerNoCdnHost env s of
        (Some err, s1) \<Rightarrow> (Some (''Unable to register no-CDN entry for host: '' @ err), s1)
      | (None, h1, w1) \<Rightarrow>
          (case registerToNoCdnRotations env h1 of
             (Some err, h2) \<Rightarrow> (Some (''Unable to register no-CDN rotations: '' @ err), h2, w1)
           | (None, h2) \<Rightarrow> (None, h2, w1)))"

definition deployed :: "host \<Rightarrow> bool" where
  "deployed h = (case cfrDist h of None \<Rightarrow> False | Some d \<Rightarrow> Status d = ''Deployed'')"

definition register :: "'w env \<Rightarrow> host \<times> 'w \<Rightarrow> error option \<times> host \<times> 'w" where
  "register env s =
     (case registerCdn env s of
        (Some err, s1) \<Rightarrow> (Some err, s1)
      | (None, h1, w1) \<Rightarrow>
          if deployed h1 then registerNoCdn env (h1, w1) else (None, h1, w1))"

definition doReset :: "'w env \<Rightarrow> string \<Rightarrow> time \<Rightarrow> host \<times> 'w \<Rightarrow> host \<times> 'w" where
  "doReset env newName now s =
     (let (h, w) = s;
          h1 = h\<lparr>lastSuccess := now, lastTest := 0\<rparr>
      in if newName \<noteq> name h1
         then (let (h2, w2) =
                     (if cdnRecord h1 \<noteq> None
                      then doDeregisterNoCdnHost env (doDeregisterCdnHost env (h1, w))
                      else (h1, w))
               in (h2\<lparr>name := newName\<rparr>, w2))
         else (h1, w))"

subsection \<open>The prober\<close>

definition proxyAttempts :: nat where
  "proxyAttempts = 1"

definition testSites :: "string list" where
  "testSites = [''www.google.com'', ''www.youtube.com'', ''www.facebook.com'']"

text \<open>
  What the network does during one attempt: the result of \<^verbatim>\<open>net.DialTimeout\<close>, the value
  of \<^verbatim>\<open>rand.Intn\<close>, the proxy-host header that the \<^verbatim>\<open>OnFirstResponse\<close> hook of the
  tunnel stores into \<^verbatim>\<open>reportedHost\<close> (when the hook fires), and the result of the
  proxied HEAD request: an error, or a response with its status code.
\<close>

datatype head_result = HeadError error | HeadResponse int

record net_outcome =
  dial :: "error option"
  rand_Intn :: nat
  first_response :: "string option"
  head :: head_result

definition doIsAbleToProxy ::
  "host \<Rightarrow> net_outcome \<Rightarrow> (bool \<times> bool \<times> error option) \<times> host" where
  "doIsAbleToProxy h out =
     (let addr = ip h @ '':443''
      in case dial out of
           Some err \<Rightarrow>
             ((False, strings_Contains err ''connection refused'',
               Some (''Unable to connect to '' @ addr @ '': '' @ err)), h)
         | None \<Rightarrow>
             (let site = testSites ! (rand_Intn out mod length testSites);
                  h1 = (case first_response out of
                          None \<Rightarrow> h
                        | Some v \<Rightarrow> h\<lparr>reportedHost := v\<rparr>)
              in case head out of
                   HeadError err \<Rightarrow>
                     ((False, False,
                       Some (''Unable to make proxied HEAD request to '' @ site @ '': '' @ err)), h1)
                 | HeadResponse code \<Rightarrow>
                     if code \<noteq> 200 \<and> code \<noteq> 301
                     then ((False, False,
                            Some (''Proxying to '' @ site @ '' via '' @ ip h
                                  @ '' returned unexpected status '' @ fmt_d code @ '','')), h1)
                     else ((True, False, None), h1)))"

text \<open>
  The loop of \<^verbatim>\<open>isAbleToProxy\<close> from attempt \<open>i\<close> on, with the value of \<^verbatim>\<open>lastErr\<close>;
  \<open>net i\<close> is what the network does during attempt \<open>i\<close>. The last component of the
  result is the list of messages given to \<^verbatim>\<open>log.Error\<close>. The inner
  \<^verbatim>\<open>lastErr := fmt.Errorf(...)\<close> declares a new variable, so the returned \<^verbatim>\<open>lastErr\<close>
  is the one assigned from the attempt.
\<close>

function isAbleToProxy_from ::
  "'w env \<Rightarrow> (nat \<Rightarrow> net_outcome) \<Rightarrow> nat \<Rightarrow> error option \<Rightarrow> host
     \<Rightarrow> (bool \<times> bool \<times> error option) \<times> host \<times> string list" where
  "isAbleToProxy_from env net i lastErr h =
     (if i < proxyAttempts
      then (let ((success, refused, err), h1) = doIsAbleToProxy h (net i)
            in if success \<or> refused
               then (if success \<and> reportedHost h1 \<noteq> fullName env h1
                     then ((False, refused, err), h1,
                           [String h1 @ '' is reporting an unexpected host '' @ reportedHost h1])
                     else ((success, refused, err), h1, []))
               else isAbleToProxy_from env net (Suc i) err h1)
      else ((False, False, lastErr), h, []))"
  by pat_completeness auto
termination
  by (relation "measure (\<lambda>(env, net, i, lastErr, h). proxyAttempts - i)") auto

declare isAbleToProxy_from.simps [simp del]

definition isAbleToProxy ::
  "'w env \<Rightarrow> (nat \<Rightarrow> net_outcome) \<Rightarrow> host
     \<Rightarrow> (bool \<times> bool \<times> error option) \<times> host \<times> string list" where
  "isAbleToProxy env net h = isAbleToProxy_from env net 0 None h"

subsection \<open>The run loop\<close>

text \<open>
  One event is one case taken by a \<^verbatim>\<open>select\<close>: of the loop of \<^verbatim>\<open>run\<close> while the actor
  is not paused, of the loop of \<^verbatim>\<open>pause\<close> while it is. An event carries what the case
  reads from outside: the value received, the readings of \<^verbatim>\<open>time.Now()\<close>, and for a
  test whether \<^verbatim>\<open>withtimeout.Do\<close> timed out (then its result is nil) or what the
  network did. When the timers fire is not modelled.
\<close>

datatype probe = TimedOut | Completed "nat \<Rightarrow> net_outcome"

datatype event =
    Reset string time
  | Unregister
  | InitCfr
  | PauseTimer
  | PeriodTimer probe time time

text \<open>
  The actor: the host, the state of the providers, the local variable
  \<^verbatim>\<open>checkImmediately\<close> of \<^verbatim>\<open>run\<close>, whether control is inside \<^verbatim>\<open>pause\<close>, the status that
  each test cycle handed to \<^verbatim>\<open>reportStatus\<close>, and the messages given to \<^verbatim>\<open>log.Error\<close>
  by \<^verbatim>\<open>run\<close> and by \<^verbatim>\<open>isAbleToProxy\<close>.
\<close>

record 'w actor =
  hst :: host
  world :: 'w
  checkImmediately :: bool
  paused :: bool
  reported :: "status list"
  logged :: "string list"

text \<open>The state in which \<^verbatim>\<open>run\<close> enters its loop; the two times are its two readings of the clock.\<close>

definition start :: "host \<Rightarrow> 'w \<Rightarrow> time \<Rightarrow> time \<Rightarrow> 'w actor" where
  "start h w now now' =
     \<lparr>hst = h\<lparr>lastSuccess := now, lastTest := now'\<rparr>, world = w,
      checkImmediately = True, paused = False, reported = [], logged = []\<rparr>"

text \<open>Entry into \<^verbatim>\<open>pause\<close>: the call of \<^verbatim>\<open>deregister\<close>, before the wait for a reset.\<close>

definition pause_entry :: "'w env \<Rightarrow> 'w actor \<Rightarrow> 'w actor" where
  "pause_entry env a =
     (let (h, w) = deregister env (hst a, world a)
      in a\<lparr>hst := h, world := w, paused := True\<rparr>)"

definition test_cycle :: "'w env \<Rightarrow> probe \<Rightarrow> time \<Rightarrow> time \<Rightarrow> 'w actor \<Rightarrow> 'w actor" where
  "test_cycle env p t1 t2 a =
     (let (s, h1, msgs) =
            (case p of
               TimedOut \<Rightarrow> (\<lparr>online = False, connectionRefused = False\<rparr>, hst a, [])
             | Completed net \<Rightarrow>
                 (let ((ok, refused, err), h', msgs') = isAbleToProxy env net (hst a)
                  in (\<lparr>online = ok, connectionRefused = refused\<rparr>, h', msgs')));
          a1 = a\<lparr>reported := reported a @ [s], logged := logged a @ msgs,
                 checkImmediately := False\<rparr>;
          h2 = h1\<lparr>lastTest := t1\<rparr>
      in if online s
         then (let (err, h3, w3) = register env (h2\<lparr>lastSuccess := t2\<rparr>, world a1)
               in a1\<lparr>hst := h3, world := w3,
                     logged := logged a1 @ (case err of None \<Rightarrow> [] | Some e \<Rightarrow> [e])\<rparr>)
         else a1\<lparr>hst := deregisterFromRotations h2\<rparr>)"

text \<open>
  One step of the actor; \<open>None\<close> when the \<^verbatim>\<open>select\<close> the actor waits in has no case
  for the event (while paused only a reset and an unregister signal are received). The
  call of \<^verbatim>\<open>pause\<close> returns with the reset that ends it, and \<^verbatim>\<open>run\<close> sets
  \<^verbatim>\<open>checkImmediately\<close> after that.
\<close>

fun step :: "'w env \<Rightarrow> event \<Rightarrow> 'w actor \<Rightarrow> 'w actor option" where
  "step env (Reset newName now) a =
     (let (h, w) = doReset env newName now (hst a, world a)
      in if paused a
         then Some (a\<lparr>hst := h, world := w, paused := False, checkImmediately := True\<rparr>)
         else Some (a\<lparr>hst := h, world := w\<rparr>))"
| "step env Unregister a =
     (if paused a then Some a
      else Some (pause_entry env a))"
| "step env InitCfr a =
     (if paused a then None
      else (let (h, w) = doInitCfrDist env (hst a, world a)
            in Some (a\<lparr>hst := h, world := w\<rparr>)))"
| "step env PauseTimer a =
     (if paused a then None
      else Some (pause_entry env a))"
| "step env (PeriodTimer p t1 t2) a =
     (if paused a then None else Some (test_cycle env p t1 t2 a))"

fun run :: "'w env \<Rightarrow> event list \<Rightarrow> 'w actor \<Rightarrow> 'w actor option" where
  "run env [] a = Some a"
| "run env (ev # evs) a =
     (case step env ev a of None \<Rightarrow> None | Some a' \<Rightarrow> run env evs a')"

subsection \<open>States visited by a run\<close>


text \<open>The host is a member of every group of the list.\<close>

definition member_of_all :: "string \<Rightarrow> (string \<times> group) list \<Rightarrow> bool" where
  "member_of_all hid gs = list_all (\<lambda>(k, g). hid \<in> members g) gs"

text \<open>The host is a member of no group of the list.\<close>

definition member_of_none :: "string \<Rightarrow> (string \<times> group) list \<Rightarrow> bool" where
  "member_of_none hid gs = list_all (\<lambda>(k, g). hid \<notin> members g) gs"

subsection \<open>Providers for the examples\<close>

text \<open>
  A DNS provider that holds a list of numbered (name, ip) records: creating a record that
  it already holds reports the duplicate condition and returns no handle, destroying
  takes the record off the list, and destroying nil or an unknown record is an error.
  A distribution is created in progress and is deployed at the next refresh.
\<close>

type_synonym test_world = "nat \<times> (nat \<times> string \<times> string) list"

definition test_Register ::
  "string \<Rightarrow> string \<Rightarrow> test_world \<Rightarrow> (cf_record option \<times> error option) \<times> test_world" where
  "test_Register n i w =
     (let (next, recs) = w
      in if (n, i) \<in> snd ` set recs
         then ((None, Some ''The record already exists.''), w)
         else ((Some next, None), (Suc next, recs @ [(next, n, i)])))"

definition test_DestroyRecord :: "cf_record option \<Rightarrow> test_world \<Rightarrow> error option \<times> test_world" where
  "test_DestroyRecord r w =
     (let (next, recs) = w
      in case r of
           None \<Rightarrow> (Some ''no record given'', w)
         | Some k \<Rightarrow>
             if k \<in> fst ` set recs then (None, (next, filter (\<lambda>x. fst x \<noteq> k) recs))
             else (Some ''Record does not exist.'', w))"

definition test_env :: "test_world env" where
  "test_env =
     \<lparr>cfldomain = ''example.org'', noCdnPrefix = ''nocdn-'',
      RoundRobin = ''roundrobin'', Fallbacks = ''fallbacks'', Peers = ''peers'',
      RoundRobinNoCdn = ''nocdn-roundrobin'', FallbacksNoCdn = ''nocdn-fallbacks'',
      PeersNoCdn = ''nocdn-peers'',
      isCdnFallback = (\<lambda>n. take 3 n = ''fl-''),
      group_reports = True,
      cflutil_Register = test_Register,
      cflutil_DestroyRecord = test_DestroyRecord,
      cfr_CreateDistribution = (\<lambda>sd origin comment w. ((Some \<lparr>Status = ''InProgress''\<rparr>, None), w)),
      cfr_RefreshStatus = (\<lambda>d w. (d\<lparr>Status := ''Deployed''\<rparr>, w))\<rparr>"

text \<open>The same provider, except that every call to create a record for \<open>bad\<close> times out.\<close>

definition failing_env :: "string \<Rightarrow> test_world env" where
  "failing_env bad =
     test_env\<lparr>cflutil_Register :=
       (\<lambda>n i w. if n = bad then ((None, Some ''i/o timeout''), w) else test_Register n i w)\<rparr>"

text \<open>Network outcomes: a proxied HEAD answered 200 by a tunnel that reports \<open>v\<close>.\<close>

definition net_ok :: "string \<Rightarrow> nat \<Rightarrow> net_outcome" where
  "net_ok v i = \<lparr>dial = None, rand_Intn = 0, first_response = Some v, head = HeadResponse 200\<rparr>"

definition net_refused :: "nat \<Rightarrow> net_outcome" where
  "net_refused i =
     \<lparr>dial = Some ''dial tcp 1.2.3.4:443: connection refused'', rand_Intn = 0,
      first_response = None, head = HeadError []\<rparr>"

definition peer1 :: host where
  "peer1 = newHost test_env ''p1'' ''1.2.3.4'' None"

definition fallback1 :: host where
  "fallback1 = newHost test_env ''fl-1'' ''5.6.7.8'' None"

definition peer1_actor :: "test_world actor" where
  "peer1_actor = start peer1 (0, []) 1 1"

definition fallback1_actor :: "test_world actor" where
  "fallback1_actor = start fallback1 (0, []) 1 1"

subsection \<open>Observations\<close>

text \<open>
  A provider call that is made only for a handle that is not nil, as in
  \<^verbatim>\<open>deregisterCdnHost\<close> and \<^verbatim>\<open>deregisterNoCdnHost\<close> on a host that is not a fallback.
\<close>

definition destroy_if_held ::
  "'w env \<Rightarrow> cf_record option \<Rightarrow> 'w \<Rightarrow> error option \<times> 'w" where
  "destroy_if_held env r w = (if r = None then (None, w) else cflutil_DestroyRecord env r w)"

text \<open>For each group of a list, whether the host is a member.\<close>

definition memberships :: "string \<Rightarrow> (string \<times> group) list \<Rightarrow> (string \<times> bool) list" where
  "memberships hid gs = map (\<lambda>(k, g). (k, hid \<in> members g)) gs"

text \<open>
  What a run leaves behind: the name, whether the actor is paused, the two DNS record
  handles, and the memberships in the primary and in the secondary groups.
\<close>

definition view ::
  "'w actor \<Rightarrow> string \<times> bool \<times> cf_record option \<times> cf_record option
     \<times> (string \<times> bool) list \<times> (string \<times> bool) list" where
  "view a =
     (name (hst a), paused a, cdnRecord (hst a), noCdnRecord (hst a),
      memberships (ip (hst a)) (cdnGroups (hst a)),
      memberships (ip (hst a)) (noCdnGroups (hst a)))"

text \<open>
  The peer p1 with a deployed distribution, before and after a registration against a
  provider that already holds both of its records.
\<close>

definition deployed_peer1 :: host where
  "deployed_peer1 = peer1\<lparr>cfrDist := Some \<lparr>Status = ''Deployed''\<rparr>\<rparr>"

definition registered_peer1 :: host where
  "registered_peer1 =
     deployed_peer1\<lparr>cdnGroups := [(''peers'', \<lparr>subdomain = ''peers'', members = {''1.2.3.4''}\<rparr>)],
       noCdnGroups := [(''nocdn-peers'', \<lparr>subdomain = ''nocdn-peers'', members = {''1.2.3.4''}\<rparr>)]\<rparr>"

definition both_records :: test_world where
  "both_records = (2, [(0, ''p1'', ''1.2.3.4''), (1, ''nocdn-p1'', ''1.2.3.4'')])"

section \<open>Properties\<close>

lemmas fixture_defs =
  peer1_def fallback1_def peer1_actor_def fallback1_actor_def start_def newHost_def
  isFallback_def test_env_def failing_env_def new_group_def
  net_ok_def net_refused_def test_Register_def test_DestroyRecord_def

lemmas model_defs =
  run.simps step.simps test_cycle_def pause_entry_def isAbleToProxy_def
  isAbleToProxy_from.simps proxyAttempts_def doIsAbleToProxy_def testSites_def
  register_def registerCdn_def registerNoCdn_def registerCdnHost_def registerNoCdnHost_def
  registerToCdnRotations_def registerToNoCdnRotations_def register_groups.simps
  group_register_def group_deregister_def isDuplicateError_def deployed_def
  deregister_def deregisterCdnHost_def deregisterNoCdnHost_def doDeregisterCdnHost_def
  doDeregisterNoCdnHost_def deregisterFromRotations_def deregister_groups_def
  doReset_def doInitCfrDist_def first_label_def fullName_def String_def
  view_def memberships_def Let_def

subsection \<open>What the prober leaves alone\<close>

lemma doIsAbleToProxy_frame:
  "doIsAbleToProxy h out = (r, h') \<Longrightarrow> \<exists>v. h' = h\<lparr>reportedHost := v\<rparr>"
  by (cases "first_response out")
     (auto simp: doIsAbleToProxy_def Let_def split: option.splits head_result.splits if_splits
           intro: exI[of _ "reportedHost h"])

lemma isAbleToProxy_from_frame:
  "isAbleToProxy_from env net i e h = (r, h', msgs) \<Longrightarrow> \<exists>v. h' = h\<lparr>reportedHost := v\<rparr>"
proof (induction env net i e h arbitrary: r h' msgs rule: isAbleToProxy_from.induct)
  case (1 env net i lastErr h)
  show ?case
  proof (cases "i < proxyAttempts")
    case False
    with "1.prems" have "h' = h" by (simp add: isAbleToProxy_from.simps[of env net i])
    then show ?thesis by (auto intro: exI[of _ "reportedHost h"])
  next
    case True
    obtain s f e1 h1 where d: "doIsAbleToProxy h (net i) = ((s, f, e1), h1)"
      by (metis prod_cases3 surj_pair)
    from doIsAbleToProxy_frame[OF d] obtain v where h1: "h1 = h\<lparr>reportedHost := v\<rparr>" by blast
    show ?thesis
    proof (cases "s \<or> f")
      case True
      with \<open>i < proxyAttempts\<close> d "1.prems" have "h' = h1"
        by (auto simp: isAbleToProxy_from.simps[of env net i] split: if_splits)
      with h1 show ?thesis by blast
    next
      case False
      with \<open>i < proxyAttempts\<close> d "1.prems"
      have "isAbleToProxy_from env net (Suc i) e1 h1 = (r, h', msgs)"
        by (simp add: isAbleToProxy_from.simps[of env net i])
      from "1.IH"[OF \<open>i < proxyAttempts\<close> d[symmetric] refl refl refl False this]
      obtain v' where "h' = h1\<lparr>reportedHost := v'\<rparr>" by auto
      with h1 show ?thesis by auto
    qed
  qed
qed

lemma isAbleToProxy_frame:
  "isAbleToProxy env net h = (r, h', msgs) \<Longrightarrow> \<exists>v. h' = h\<lparr>reportedHost := v\<rparr>"
  unfolding isAbleToProxy_def by (rule isAbleToProxy_from_frame)

lemma member_of_none_deregister_groups: "member_of_none hid (deregister_groups hid gs)"
  by (induction gs) (auto simp: member_of_none_def deregister_groups_def group_deregister_def)

lemma keys_deregister_groups: "map fst (deregister_groups hid gs) = map fst gs"
  by (induction gs) (auto simp: deregister_groups_def)

subsection \<open>The prober\<close>

text \<open>
  C7. One attempt succeeds exactly when the raw dial succeeds and the proxied HEAD is
  answered with status 200 or 301; every other outcome is a failure that carries an
  error. The attempt reports a refused connection exactly when the raw dial to ip:443
  fails with an error whose text says "connection refused": never after the dial has
  succeeded, so never for a failed or badly answered HEAD request, and not for a dial
  that fails with another text (a timeout, an unreachable network).
\<close>


theorem attempt_outcome:
  assumes "doIsAbleToProxy h out = ((success, refused, err), h')"
  shows "(success \<longleftrightarrow>
            dial out = None \<and> (head out = HeadResponse 200 \<or> head out = HeadResponse 301))
         \<and> (refused \<longleftrightarrow>
              (\<exists>e. dial out = Some e \<and> strings_Contains e ''connection refused''))
         \<and> (success \<longrightarrow> \<not> refused \<and> err = None)
         \<and> (\<not> success \<longrightarrow> err \<noteq> None)"
  using assms
  by (auto simp: doIsAbleToProxy_def Let_def split: option.splits head_result.splits if_splits)

theorem attempt_outcome_witness:
  "doIsAbleToProxy peer1 ((net_ok ''p1.example.org'' 0)\<lparr>head := HeadResponse 404\<rparr>)
     = ((False, False,
         Some ''Proxying to www.google.com via 1.2.3.4 returned unexpected status 404,''),
        peer1\<lparr>reportedHost := ''p1.example.org''\<rparr>)
   \<and> \<not> (head ((net_ok ''p1.example.org'' 0)\<lparr>head := HeadResponse 404\<rparr>) = HeadResponse 200
         \<or> head ((net_ok ''p1.example.org'' 0)\<lparr>head := HeadResponse 404\<rparr>) = HeadResponse 301)"
proof -
  have e: "doIsAbleToProxy peer1 ((net_ok ''p1.example.org'' 0)\<lparr>head := HeadResponse 404\<rparr>)
     = ((False, False,
         Some ''Proxying to www.google.com via 1.2.3.4 returned unexpected status 404,''),
        peer1\<lparr>reportedHost := ''p1.example.org''\<rparr>)"
    by (simp add: doIsAbleToProxy_def fixture_defs testSites_def fmt_d_def fmt_nat.simps Let_def)
  from attempt_outcome [OF e] e show ?thesis by simp
qed

text \<open>
  C9. When the attempt of a probe succeeds on the network and the virtual host that the
  tunnel reported differs from the full name of the host, \<^verbatim>\<open>isAbleToProxy\<close> returns
  the error of the attempt, which is nil, and not the mismatch error: that one is given to
  \<^verbatim>\<open>log.Error\<close> only.
\<close>


theorem mismatch_error_not_returned:
  assumes "doIsAbleToProxy h (net 0) = ((True, refused, err), h1)"
      and "reportedHost h1 \<noteq> fullName env h1"
  shows "isAbleToProxy env net h
           = ((False, False, None), h1,
              [String h1 @ '' is reporting an unexpected host '' @ reportedHost h1])
         \<and> err = None"
proof -
  from assms(1) have e: "err = None \<and> \<not> refused"
    by (auto simp: doIsAbleToProxy_def Let_def split: option.splits head_result.splits if_splits)
  with assms show ?thesis
    by (simp add: isAbleToProxy_def isAbleToProxy_from.simps[of env net 0] proxyAttempts_def)
qed

theorem mismatch_error_not_returned_witness:
  "doIsAbleToProxy peer1 (net_ok ''p9.example.org'' 0)
     = ((True, False, None), peer1\<lparr>reportedHost := ''p9.example.org''\<rparr>)
   \<and> reportedHost (peer1\<lparr>reportedHost := ''p9.example.org''\<rparr>)
       \<noteq> fullName test_env (peer1\<lparr>reportedHost := ''p9.example.org''\<rparr>)
   \<and> isAbleToProxy test_env (net_ok ''p9.example.org'') peer1
     = ((False, False, None), peer1\<lparr>reportedHost := ''p9.example.org''\<rparr>,
        [''p1 (1.2.3.4) is reporting an unexpected host p9.example.org''])"
proof -
  have e: "doIsAbleToProxy peer1 (net_ok ''p9.example.org'' 0)
     = ((True, False, None), peer1\<lparr>reportedHost := ''p9.example.org''\<rparr>)"
    by (simp add: doIsAbleToProxy_def fixture_defs testSites_def Let_def)
  have n: "reportedHost (peer1\<lparr>reportedHost := ''p9.example.org''\<rparr>)
       \<noteq> fullName test_env (peer1\<lparr>reportedHost := ''p9.example.org''\<rparr>)"
    by (simp add: fullName_def fixture_defs Let_def)
  from mismatch_error_not_returned [where net = "net_ok ''p9.example.org''", OF e n] e n show ?thesis
    by (simp add: String_def fixture_defs Let_def)
qed

text \<open>
  C5. A probe whose proxied HEAD is answered with an accepted status (200, and likewise
  301) while the virtual host reported by the tunnel differs from the full name of the
  host (name, dot, domain) is not online: \<^verbatim>\<open>isAbleToProxy\<close> returns false, and the
  status that the test cycle reports has online = false.
\<close>


theorem sticky_routing_enforced:
  assumes "dial (net 0) = None"
      and "head (net 0) = HeadResponse code" and "code = 200 \<or> code = 301"
      and "(case first_response (net 0) of None \<Rightarrow> reportedHost (hst a) | Some v \<Rightarrow> v)
             \<noteq> fullName env (hst a)"
  shows "fst (fst (isAbleToProxy env net (hst a))) = False
         \<and> last (reported (test_cycle env (Completed net) t1 t2 a))
             = \<lparr>online = False, connectionRefused = False\<rparr>"
proof -
  define h1 where "h1 = (case first_response (net 0) of None \<Rightarrow> hst a
                          | Some v \<Rightarrow> (hst a)\<lparr>reportedHost := v\<rparr>)"
  from assms(1-3) have d: "doIsAbleToProxy (hst a) (net 0) = ((True, False, None), h1)"
    by (auto simp: doIsAbleToProxy_def Let_def h1_def)
  from assms(4) have n: "reportedHost h1 \<noteq> fullName env h1"
    by (auto simp: h1_def fullName_def split: option.splits)
  from d n have r: "isAbleToProxy env net (hst a)
           = ((False, False, None), h1,
              [String h1 @ '' is reporting an unexpected host '' @ reportedHost h1])"
    by (simp add: isAbleToProxy_def isAbleToProxy_from.simps[of env net 0] proxyAttempts_def)
  then show ?thesis by (simp add: test_cycle_def Let_def)
qed

theorem sticky_routing_enforced_witness:
  "dial (net_ok ''p9.example.org'' 0) = None
   \<and> head (net_ok ''p9.example.org'' 0) = HeadResponse 200
   \<and> (case first_response (net_ok ''p9.example.org'' 0) of
         None \<Rightarrow> reportedHost (hst peer1_actor) | Some v \<Rightarrow> v)
       \<noteq> fullName test_env (hst peer1_actor)
   \<and> fst (fst (isAbleToProxy test_env (net_ok ''p9.example.org'') (hst peer1_actor))) = False
   \<and> last (reported (test_cycle test_env (Completed (net_ok ''p9.example.org'')) 10 11
                       peer1_actor))
       = \<lparr>online = False, connectionRefused = False\<rparr>"
proof -
  have 1: "dial (net_ok ''p9.example.org'' 0) = None" by (simp add: net_ok_def)
  have 2: "head (net_ok ''p9.example.org'' 0) = HeadResponse 200" by (simp add: net_ok_def)
  have 3: "(200::int) = 200 \<or> (200::int) = 301" by simp
  have 4: "(case first_response (net_ok ''p9.example.org'' 0) of
         None \<Rightarrow> reportedHost (hst peer1_actor) | Some v \<Rightarrow> v)
       \<noteq> fullName test_env (hst peer1_actor)"
    by (simp add: fullName_def fixture_defs Let_def)
  note r = sticky_routing_enforced [where net = "net_ok ''p9.example.org''" and ?t1.0 = 10 and ?t2.0 = 11, OF 1 2 3 4]
  show ?thesis by (intro conjI 1 2 4 conjunct1[OF r] conjunct2[OF r])
qed

subsection \<open>Reset\<close>

text \<open>
  C10. On a host whose \<^verbatim>\<open>cdnRecord\<close> is nil, a reset changes the name and the two
  timestamps and nothing else, and calls no provider: a \<^verbatim>\<open>noCdnRecord\<close> registered
  under the old name is not destroyed by the rename.
\<close>


theorem reset_without_cdn_record:
  assumes "cdnRecord h = None"
  shows "doReset env newName now (h, w)
           = (h\<lparr>name := newName, lastSuccess := now, lastTest := 0\<rparr>, w)
         \<and> noCdnRecord (fst (doReset env newName now (h, w))) = noCdnRecord h"
  using assms by (simp add: doReset_def Let_def)

theorem reset_without_cdn_record_witness:
  "cdnRecord (peer1\<lparr>noCdnRecord := Some 7\<rparr>) = None
   \<and> ''p2'' \<noteq> name (peer1\<lparr>noCdnRecord := Some 7\<rparr>)
   \<and> doReset test_env ''p2'' 20 (peer1\<lparr>noCdnRecord := Some 7\<rparr>, (8, [(7, ''nocdn-p1'', ''1.2.3.4'')]))
       = (peer1\<lparr>noCdnRecord := Some 7, name := ''p2'', lastSuccess := 20, lastTest := 0\<rparr>,
          (8, [(7, ''nocdn-p1'', ''1.2.3.4'')]))
   \<and> noCdnRecord (fst (doReset test_env ''p2'' 20
         (peer1\<lparr>noCdnRecord := Some 7\<rparr>, (8, [(7, ''nocdn-p1'', ''1.2.3.4'')])))) = Some 7"
  using reset_without_cdn_record [of "peer1\<lparr>noCdnRecord := Some 7\<rparr>" test_env "''p2''" 20
          "(8, [(7, ''nocdn-p1'', ''1.2.3.4'')])"]
  by (simp add: peer1_def newHost_def isFallback_def test_env_def new_group_def Let_def)

subsection \<open>Deregistration\<close>

lemma deregisterFromRotations_groups:
  "member_of_none (ip h) (cdnGroups (deregisterFromRotations h))"
  "member_of_none (ip h) (noCdnGroups (deregisterFromRotations h))"
  "map fst (cdnGroups (deregisterFromRotations h)) = map fst (cdnGroups h)"
  "map fst (noCdnGroups (deregisterFromRotations h)) = map fst (noCdnGroups h)"
  by (simp_all add: deregisterFromRotations_def Let_def member_of_none_deregister_groups
        keys_deregister_groups)

lemma deregisterFromRotations_frame:
  "deregisterFromRotations h
     = h\<lparr>cdnGroups := cdnGroups (deregisterFromRotations h),
         noCdnGroups := noCdnGroups (deregisterFromRotations h)\<rparr>"
  by (simp add: deregisterFromRotations_def Let_def)

lemma deregisterFromRotations_fields [simp]:
  "cdnRecord (deregisterFromRotations h) = cdnRecord h"
  "noCdnRecord (deregisterFromRotations h) = noCdnRecord h"
  "name (deregisterFromRotations h) = name h"
  "ip (deregisterFromRotations h) = ip h"
  "cfrDist (deregisterFromRotations h) = cfrDist h"
  by (simp_all add: deregisterFromRotations_def Let_def)

lemma deregister_fallback:
  "isFallback env h \<Longrightarrow> deregister env (h, w) = (deregisterFromRotations h, w)"
  by (simp add: deregister_def deregisterCdnHost_def deregisterNoCdnHost_def)

lemma deregister_peer:
  assumes "\<not> isFallback env h"
  shows "deregister env (h, w) =
     (let (e1, w1) = destroy_if_held env (cdnRecord h) w;
          (e2, w2) = destroy_if_held env (noCdnRecord h) w1
      in (deregisterFromRotations
            (h\<lparr>cdnRecord := if e1 = None then None else cdnRecord h,
               noCdnRecord := if e2 = None then None else noCdnRecord h\<rparr>), w2))"
  using assms
  by (cases "cflutil_DestroyRecord env (cdnRecord h) w";
      cases "cflutil_DestroyRecord env (noCdnRecord h) w";
      cases "cflutil_DestroyRecord env (noCdnRecord h) (snd (cflutil_DestroyRecord env (cdnRecord h) w))")
     (auto simp: deregister_def deregisterCdnHost_def deregisterNoCdnHost_def
        doDeregisterCdnHost_def doDeregisterNoCdnHost_def destroy_if_held_def isFallback_def
        deregisterFromRotations_def Let_def split: prod.splits)

text \<open>
  C4. The failure path of a test cycle, \<^verbatim>\<open>deregisterFromRotations\<close>, takes the host out
  of every rotation group assigned to it, primary and secondary, whatever its class, and
  leaves \<^verbatim>\<open>cdnRecord\<close> and \<^verbatim>\<open>noCdnRecord\<close> as they are. So a test cycle of \<^verbatim>\<open>run\<close>
  that reports a status that is not online ends with the host in none of its groups,
  with both record fields unchanged and without a call to a provider.
\<close>

theorem failure_path_rotations_only:
  "member_of_none (ip h) (cdnGroups (deregisterFromRotations h))
   \<and> member_of_none (ip h) (noCdnGroups (deregisterFromRotations h))
   \<and> cdnRecord (deregisterFromRotations h) = cdnRecord h
   \<and> noCdnRecord (deregisterFromRotations h) = noCdnRecord h
   \<and> (\<not> online (last (reported (test_cycle env p t1 t2 a))) \<longrightarrow>
        member_of_none (ip (hst a)) (cdnGroups (hst (test_cycle env p t1 t2 a)))
        \<and> member_of_none (ip (hst a)) (noCdnGroups (hst (test_cycle env p t1 t2 a)))
        \<and> cdnRecord (hst (test_cycle env p t1 t2 a)) = cdnRecord (hst a)
        \<and> noCdnRecord (hst (test_cycle env p t1 t2 a)) = noCdnRecord (hst a)
        \<and> world (test_cycle env p t1 t2 a) = world a)"
proof -
  have cycle: "member_of_none (ip (hst a)) (cdnGroups (hst (test_cycle env p t1 t2 a)))
        \<and> member_of_none (ip (hst a)) (noCdnGroups (hst (test_cycle env p t1 t2 a)))
        \<and> cdnRecord (hst (test_cycle env p t1 t2 a)) = cdnRecord (hst a)
        \<and> noCdnRecord (hst (test_cycle env p t1 t2 a)) = noCdnRecord (hst a)
        \<and> world (test_cycle env p t1 t2 a) = world a"
    if off: "\<not> online (last (reported (test_cycle env p t1 t2 a)))"
  proof (cases p)
    case TimedOut
    have "hst (test_cycle env p t1 t2 a) = deregisterFromRotations ((hst a)\<lparr>lastTest := t1\<rparr>)"
         "world (test_cycle env p t1 t2 a) = world a"
      using TimedOut by (simp_all add: test_cycle_def Let_def)
    then show ?thesis
      using deregisterFromRotations_groups[of "(hst a)\<lparr>lastTest := t1\<rparr>"] by simp
  next
    case (Completed net)
    obtain ok refused err h' msgs
      where r: "isAbleToProxy env net (hst a) = ((ok, refused, err), h', msgs)"
      by (metis prod_cases3 surj_pair)
    from isAbleToProxy_frame[OF r] obtain v where h': "h' = (hst a)\<lparr>reportedHost := v\<rparr>"
      by blast
    from off Completed r have "\<not> ok"
      by (auto simp: test_cycle_def Let_def split: prod.splits)
    with Completed r
    have "hst (test_cycle env p t1 t2 a) = deregisterFromRotations (h'\<lparr>lastTest := t1\<rparr>)"
         "world (test_cycle env p t1 t2 a) = world a"
      by (simp_all add: test_cycle_def Let_def)
    then show ?thesis
      using deregisterFromRotations_groups[of "h'\<lparr>lastTest := t1\<rparr>"] h' by simp
  qed
  show ?thesis
    using deregisterFromRotations_groups(1,2)[of h] cycle by simp
qed

theorem failure_path_rotations_only_witness:
  "\<not> online (last (reported (test_cycle test_env (Completed net_refused) 20 21
        (the (run test_env [PeriodTimer (Completed (net_ok ''p1.example.org'')) 10 11] peer1_actor)))))
   \<and> view (the (run test_env [PeriodTimer (Completed (net_ok ''p1.example.org'')) 10 11] peer1_actor))
       = (''p1'', False, Some 0, None, [(''peers'', True)], [(''nocdn-peers'', False)])
   \<and> view (test_cycle test_env (Completed net_refused) 20 21
        (the (run test_env [PeriodTimer (Completed (net_ok ''p1.example.org'')) 10 11] peer1_actor)))
       = (''p1'', False, Some 0, None, [(''peers'', False)], [(''nocdn-peers'', False)])
   \<and> cdnRecord (hst (test_cycle test_env (Completed net_refused) 20 21
        (the (run test_env [PeriodTimer (Completed (net_ok ''p1.example.org'')) 10 11] peer1_actor))))
       = cdnRecord (hst (the (run test_env [PeriodTimer (Completed (net_ok ''p1.example.org'')) 10 11] peer1_actor)))"
proof -
  define a where
    "a = the (run test_env [PeriodTimer (Completed (net_ok ''p1.example.org'')) 10 11] peer1_actor)"
  have a: "a = \<lparr>hst = \<lparr>name = ''p1'', ip = ''1.2.3.4'', cdnRecord = Some 0, noCdnRecord = None,
        cfrDist = None,
        cdnGroups = [(''peers'', \<lparr>subdomain = ''peers'', members = {''1.2.3.4''}\<rparr>)],
        noCdnGroups = [(''nocdn-peers'', \<lparr>subdomain = ''nocdn-peers'', members = {}\<rparr>)],
        lastSuccess = 11, lastTest = 10, reportedHost = ''p1.example.org''\<rparr>,
     world = (1, [(0, ''p1'', ''1.2.3.4'')]), checkImmediately = False,
     paused = False,
     reported = [\<lparr>online = True, connectionRefused = False\<rparr>], logged = []\<rparr>"
    unfolding a_def by (simp add: model_defs fixture_defs)
  have off: "\<not> online (last (reported (test_cycle test_env (Completed net_refused) 20 21 a)))"
    unfolding a by (simp add: model_defs fixture_defs)
  have v: "view (test_cycle test_env (Completed net_refused) 20 21 a)
       = (''p1'', False, Some 0, None, [(''peers'', False)], [(''nocdn-peers'', False)])"
    unfolding a by (simp add: model_defs fixture_defs)
  have va: "view a = (''p1'', False, Some 0, None, [(''peers'', True)], [(''nocdn-peers'', False)])"
    unfolding a by (simp add: model_defs)
  from failure_path_rotations_only [where h = "hst a" and a = a and env = test_env
      and p = "Completed net_refused" and ?t1.0 = 20 and ?t2.0 = 21] off
  have "cdnRecord (hst (test_cycle test_env (Completed net_refused) 20 21 a)) = cdnRecord (hst a)"
    by blast
  with off v va show ?thesis unfolding a_def by blast
qed

text \<open>
  C3. \<^verbatim>\<open>deregister\<close> takes the host out of every rotation group assigned to it. On a
  host that is not a fallback it asks the provider to destroy \<^verbatim>\<open>cdnRecord\<close> and then
  \<^verbatim>\<open>noCdnRecord\<close>, each when it is not nil, and sets the field to nil when the provider
  reports no error. On a fallback host it makes no provider call and leaves both fields
  unchanged.
\<close>

theorem deregister_by_class:
  assumes "deregister env (h, w) = (h', w')"
  shows "member_of_none (ip h) (cdnGroups h') \<and> member_of_none (ip h) (noCdnGroups h')
         \<and> (isFallback env h \<longrightarrow>
               cdnRecord h' = cdnRecord h \<and> noCdnRecord h' = noCdnRecord h \<and> w' = w)
         \<and> (\<not> isFallback env h \<longrightarrow>
               (let (e1, w1) = destroy_if_held env (cdnRecord h) w;
                    (e2, w2) = destroy_if_held env (noCdnRecord h) w1
                in cdnRecord h' = (if e1 = None then None else cdnRecord h)
                   \<and> noCdnRecord h' = (if e2 = None then None else noCdnRecord h)
                   \<and> w' = w2))"
proof (cases "isFallback env h")
  case True
  with assms have "h' = deregisterFromRotations h" "w' = w"
    by (simp_all add: deregister_fallback)
  with True show ?thesis by (simp add: deregisterFromRotations_groups)
next
  case False
  obtain e1 w1 where d1: "destroy_if_held env (cdnRecord h) w = (e1, w1)" by fastforce
  obtain e2 w2 where d2: "destroy_if_held env (noCdnRecord h) w1 = (e2, w2)" by fastforce
  define k where "k = h\<lparr>cdnRecord := if e1 = None then None else cdnRecord h,
                         noCdnRecord := if e2 = None then None else noCdnRecord h\<rparr>"
  from assms False d1 d2 have "h' = deregisterFromRotations k" "w' = w2"
    by (simp_all add: deregister_peer k_def)
  with False d1 d2 deregisterFromRotations_groups(1,2)[of k] show ?thesis
    by (simp add: k_def)
qed

theorem deregister_by_class_witness:
  "deregister test_env (hst (the (run test_env
       [InitCfr, InitCfr, PeriodTimer (Completed (net_ok ''p1.example.org'')) 10 11] peer1_actor)),
       (2, [(0, ''p1'', ''1.2.3.4''), (1, ''nocdn-p1'', ''1.2.3.4'')]))
     = (\<lparr>name = ''p1'', ip = ''1.2.3.4'', cdnRecord = None, noCdnRecord = None,
         cfrDist = Some \<lparr>Status = ''Deployed''\<rparr>,
         cdnGroups = [(''peers'', \<lparr>subdomain = ''peers'', members = {}\<rparr>)],
         noCdnGroups = [(''nocdn-peers'', \<lparr>subdomain = ''nocdn-peers'', members = {}\<rparr>)],
         lastSuccess = 11, lastTest = 10, reportedHost = ''p1.example.org''\<rparr>, (2, []))
   \<and> member_of_none ''1.2.3.4'' [(''peers'', \<lparr>subdomain = ''peers'', members = {}\<rparr>)]
   \<and> \<not> isFallback test_env (hst (the (run test_env
       [InitCfr, InitCfr, PeriodTimer (Completed (net_ok ''p1.example.org'')) 10 11] peer1_actor)))
   \<and> isFallback test_env (fallback1\<lparr>cdnRecord := Some 0\<rparr>)
   \<and> deregister test_env (fallback1\<lparr>cdnRecord := Some 0\<rparr>, (1, [(0, ''fl-1'', ''5.6.7.8'')]))
       = (fallback1\<lparr>cdnRecord := Some 0\<rparr>, (1, [(0, ''fl-1'', ''5.6.7.8'')]))"
proof -
  define h where "h = hst (the (run test_env
       [InitCfr, InitCfr, PeriodTimer (Completed (net_ok ''p1.example.org'')) 10 11] peer1_actor))"
  have h: "h = \<lparr>name = ''p1'', ip = ''1.2.3.4'', cdnRecord = Some 0, noCdnRecord = Some 1,
         cfrDist = Some \<lparr>Status = ''Deployed''\<rparr>,
         cdnGroups = [(''peers'', \<lparr>subdomain = ''peers'', members = {''1.2.3.4''}\<rparr>)],
         noCdnGroups = [(''nocdn-peers'', \<lparr>subdomain = ''nocdn-peers'', members = {''1.2.3.4''}\<rparr>)],
         lastSuccess = 11, lastTest = 10, reportedHost = ''p1.example.org''\<rparr>"
    unfolding h_def by (simp add: model_defs fixture_defs)
  have d: "deregister test_env (h, (2, [(0, ''p1'', ''1.2.3.4''), (1, ''nocdn-p1'', ''1.2.3.4'')]))
     = (\<lparr>name = ''p1'', ip = ''1.2.3.4'', cdnRecord = None, noCdnRecord = None,
         cfrDist = Some \<lparr>Status = ''Deployed''\<rparr>,
         cdnGroups = [(''peers'', \<lparr>subdomain = ''peers'', members = {}\<rparr>)],
         noCdnGroups = [(''nocdn-peers'', \<lparr>subdomain = ''nocdn-peers'', members = {}\<rparr>)],
         lastSuccess = 11, lastTest = 10, reportedHost = ''p1.example.org''\<rparr>, (2, []))"
    unfolding h by (simp add: model_defs fixture_defs)
  have f: "\<not> isFallback test_env h" unfolding h by (simp add: fixture_defs)
  from deregister_by_class [OF d] f
  have "member_of_none ''1.2.3.4'' [(''peers'', \<lparr>subdomain = ''peers'', members = {}\<rparr>)]"
    unfolding h by simp
  moreover have g: "isFallback test_env (fallback1\<lparr>cdnRecord := Some 0\<rparr>)"
    by (simp add: fixture_defs)
  moreover have e: "deregister test_env (fallback1\<lparr>cdnRecord := Some 0\<rparr>, (1, [(0, ''fl-1'', ''5.6.7.8'')]))
       = (fallback1\<lparr>cdnRecord := Some 0\<rparr>, (1, [(0, ''fl-1'', ''5.6.7.8'')]))"
    by (simp add: model_defs fixture_defs)
  moreover from deregister_by_class [OF e] g
  have "cdnRecord (fallback1\<lparr>cdnRecord := Some 0\<rparr>) = Some 0" by simp
  ultimately show ?thesis using d f unfolding h_def by blast
qed

subsection \<open>Pause\<close>

text \<open>
  C2, as stated, fails on a fallback host: after a successful test has registered the
  fallback host fl-1, the pause deadline pauses the actor and takes the host out of its
  groups, and the host still holds its \<^verbatim>\<open>cdnRecord\<close> and the provider still holds the
  record.
\<close>


theorem pause_keeps_fallback_records_counterexample:
  "map_option view (run test_env
     [PeriodTimer (Completed (net_ok ''fl-1.example.org'')) 10 11, PauseTimer] fallback1_actor)
   = Some (''fl-1'', True, Some 0, None, [(''roundrobin'', False), (''fallbacks'', False)],
       [(''nocdn-roundrobin'', False), (''nocdn-fallbacks'', False)])
   \<and> map_option world (run test_env
     [PeriodTimer (Completed (net_ok ''fl-1.example.org'')) 10 11, PauseTimer] fallback1_actor)
   = Some (1, [(0, ''fl-1'', ''5.6.7.8'')])"
  by (simp add: model_defs fixture_defs)

text \<open>
  C2, amended. An unregister signal or the pause deadline, received by an actor that is
  not paused, pauses it and takes the host out of every rotation group assigned to it.
  On a host that is not a fallback the provider is asked to destroy \<^verbatim>\<open>cdnRecord\<close> and
  then \<^verbatim>\<open>noCdnRecord\<close>, each when it is not nil, and the field becomes nil when the
  provider reports no error. On a fallback host no provider call is made and both fields
  are unchanged.
\<close>


theorem pause_entry_by_class:
  assumes "\<not> paused a" and "ev = Unregister \<or> ev = PauseTimer"
  shows "\<exists>a'. step env ev a = Some a' \<and> paused a'
           \<and> member_of_none (ip (hst a)) (cdnGroups (hst a'))
           \<and> member_of_none (ip (hst a)) (noCdnGroups (hst a'))
           \<and> (isFallback env (hst a) \<longrightarrow>
                 cdnRecord (hst a') = cdnRecord (hst a)
                 \<and> noCdnRecord (hst a') = noCdnRecord (hst a) \<and> world a' = world a)
           \<and> (\<not> isFallback env (hst a) \<longrightarrow>
                 (let (e1, w1) = destroy_if_held env (cdnRecord (hst a)) (world a);
                      (e2, w2) = destroy_if_held env (noCdnRecord (hst a)) w1
                  in cdnRecord (hst a') = (if e1 = None then None else cdnRecord (hst a))
                     \<and> noCdnRecord (hst a') = (if e2 = None then None else noCdnRecord (hst a))
                     \<and> world a' = w2))"
proof -
  obtain h' w' where d: "deregister env (hst a, world a) = (h', w')" by fastforce
  define a' where "a' = a\<lparr>hst := h', world := w', paused := True\<rparr>"
  from assms d have s: "step env ev a = Some a'"
    by (auto simp: pause_entry_def a'_def)
  have sel: "hst a' = h'" "world a' = w'" "paused a'" by (simp_all add: a'_def)
  show ?thesis
  proof (cases "isFallback env (hst a)")
    case True
    with d have "h' = deregisterFromRotations (hst a)" "w' = world a"
      by (simp_all add: deregister_fallback)
    with True s sel show ?thesis by (simp add: deregisterFromRotations_groups)
  next
    case False
    obtain e1 w1 where d1: "destroy_if_held env (cdnRecord (hst a)) (world a) = (e1, w1)"
      by fastforce
    obtain e2 w2 where d2: "destroy_if_held env (noCdnRecord (hst a)) w1 = (e2, w2)"
      by fastforce
    define k where "k = (hst a)\<lparr>cdnRecord := if e1 = None then None else cdnRecord (hst a),
                         noCdnRecord := if e2 = None then None else noCdnRecord (hst a)\<rparr>"
    from d False d1 d2 have "h' = deregisterFromRotations k" "w' = w2"
      by (simp_all add: deregister_peer k_def)
    with False d1 d2 deregisterFromRotations_groups(1,2)[of k] s sel show ?thesis
      by (simp add: k_def)
  qed
qed

theorem pause_entry_by_class_witness:
  "\<not> paused (fallback1_actor\<lparr>hst := fallback1\<lparr>cdnRecord := Some 0\<rparr>,
                            world := (1, [(0, ''fl-1'', ''5.6.7.8'')])\<rparr>)
   \<and> isFallback test_env (fallback1\<lparr>cdnRecord := Some 0\<rparr>)
   \<and> paused (the (step test_env Unregister
        (fallback1_actor\<lparr>hst := fallback1\<lparr>cdnRecord := Some 0\<rparr>,
                         world := (1, [(0, ''fl-1'', ''5.6.7.8'')])\<rparr>)))
   \<and> cdnRecord (hst (the (step test_env Unregister
        (fallback1_actor\<lparr>hst := fallback1\<lparr>cdnRecord := Some 0\<rparr>,
                         world := (1, [(0, ''fl-1'', ''5.6.7.8'')])\<rparr>)))) = Some 0
   \<and> world (the (step test_env Unregister
        (fallback1_actor\<lparr>hst := fallback1\<lparr>cdnRecord := Some 0\<rparr>,
                         world := (1, [(0, ''fl-1'', ''5.6.7.8'')])\<rparr>)))
       = (1, [(0, ''fl-1'', ''5.6.7.8'')])"
proof -
  define a where "a = fallback1_actor\<lparr>hst := fallback1\<lparr>cdnRecord := Some 0\<rparr>,
                         world := (1, [(0, ''fl-1'', ''5.6.7.8'')])\<rparr>"
  have p: "\<not> paused a" by (simp add: a_def fixture_defs)
  have f: "isFallback test_env (fallback1\<lparr>cdnRecord := Some 0\<rparr>)" by (simp add: fixture_defs)
  have e: "(Unregister::event) = Unregister \<or> (Unregister::event) = PauseTimer" by simp
  have sel: "hst a = fallback1\<lparr>cdnRecord := Some 0\<rparr>" "world a = (1, [(0, ''fl-1'', ''5.6.7.8'')])"
    by (simp_all add: a_def)
  from pause_entry_by_class [OF p e, of test_env] f
  obtain a' where "step test_env Unregister a = Some a'" "paused a'"
    "cdnRecord (hst a') = Some 0" "world a' = (1, [(0, ''fl-1'', ''5.6.7.8'')])"
    unfolding sel by auto
  with p f show ?thesis unfolding a_def by simp
qed

subsection \<open>Rename on reset\<close>

text \<open>
  C1, as stated, fails for the rotation groups: the peer p1, registered with both records
  and a member of its primary and of its secondary group, is renamed by a reset; both
  records are destroyed and the host is still a member of both groups under its new name.
\<close>


theorem rename_keeps_rotations_counterexample:
  "map_option view (run test_env
     [InitCfr, InitCfr, PeriodTimer (Completed (net_ok ''p1.example.org'')) 10 11] peer1_actor)
   = Some (''p1'', False, Some 0, Some 1, [(''peers'', True)], [(''nocdn-peers'', True)])
   \<and> map_option view (run test_env
     [InitCfr, InitCfr, PeriodTimer (Completed (net_ok ''p1.example.org'')) 10 11, Reset ''p2'' 20]
     peer1_actor)
   = Some (''p2'', False, None, None, [(''peers'', True)], [(''nocdn-peers'', True)])"
  by (simp add: model_defs fixture_defs)

text \<open>
  C1, amended. A reset with a name that differs from the current one, on a host whose
  \<^verbatim>\<open>cdnRecord\<close> is not nil, asks the provider to destroy \<^verbatim>\<open>cdnRecord\<close> and then
  \<^verbatim>\<open>noCdnRecord\<close>, sets each field to nil when the provider reports no error for it, and
  only then adopts the new name; the rotation groups of the host are left as they are.
\<close>


theorem rename_destroys_records_only:
  assumes "newName \<noteq> name h" and "cdnRecord h \<noteq> None"
  shows "doReset env newName now (h, w) =
           (let (e1, w1) = cflutil_DestroyRecord env (cdnRecord h) w;
                (e2, w2) = cflutil_DestroyRecord env (noCdnRecord h) w1
            in (h\<lparr>lastSuccess := now, lastTest := 0,
                  cdnRecord := if e1 = None then None else cdnRecord h,
                  noCdnRecord := if e2 = None then None else noCdnRecord h,
                  name := newName\<rparr>, w2))
         \<and> cdnGroups (fst (doReset env newName now (h, w))) = cdnGroups h
         \<and> noCdnGroups (fst (doReset env newName now (h, w))) = noCdnGroups h
         \<and> name (fst (doReset env newName now (h, w))) = newName"
  using assms
  by (cases "cflutil_DestroyRecord env (cdnRecord h) w";
      cases "cflutil_DestroyRecord env (noCdnRecord h) (snd (cflutil_DestroyRecord env (cdnRecord h) w))")
     (auto simp: doReset_def doDeregisterCdnHost_def doDeregisterNoCdnHost_def Let_def)

theorem rename_destroys_records_only_witness:
  "''p2'' \<noteq> name (peer1\<lparr>cdnRecord := Some 0, noCdnRecord := Some 1\<rparr>)
   \<and> cdnRecord (peer1\<lparr>cdnRecord := Some 0, noCdnRecord := Some 1\<rparr>) \<noteq> None
   \<and> doReset test_env ''p2'' 20 (peer1\<lparr>cdnRecord := Some 0, noCdnRecord := Some 1\<rparr>,
        (2, [(0, ''p1'', ''1.2.3.4''), (1, ''nocdn-p1'', ''1.2.3.4'')]))
      = (peer1\<lparr>lastSuccess := 20, name := ''p2''\<rparr>, (2, []))"
proof -
  have 1: "''p2'' \<noteq> name (peer1\<lparr>cdnRecord := Some 0, noCdnRecord := Some 1\<rparr>)"
    by (simp add: fixture_defs)
  have 2: "cdnRecord (peer1\<lparr>cdnRecord := Some 0, noCdnRecord := Some 1\<rparr>) \<noteq> None" by simp
  from rename_destroys_records_only [OF 1 2, of test_env 20
         "(2, [(0, ''p1'', ''1.2.3.4''), (1, ''nocdn-p1'', ''1.2.3.4'')])"] 1 2
  show ?thesis by (simp add: fixture_defs Let_def)
qed

subsection \<open>Registration\<close>

lemma duplicate_text: "isDuplicateError ''The record already exists.''"
  by (simp add: isDuplicateError_def)

lemma register_groups_no_error: "fst (register_groups r hid gs) = None"
  by (induction gs) (auto simp: group_register_def duplicate_text split: prod.splits)

lemma register_groups_members: "member_of_all hid (snd (register_groups r hid gs))"
  by (induction gs) (auto simp: group_register_def duplicate_text member_of_all_def split: prod.splits)

lemma register_groups_idem:
  "member_of_all hid gs \<Longrightarrow> register_groups r hid gs = (None, gs)"
  by (induction gs) (auto simp: group_register_def duplicate_text member_of_all_def)

lemma registerToCdnRotations_result:
  "registerToCdnRotations env h = (None, h\<lparr>cdnGroups := snd (register_groups (group_reports env) (ip h) (cdnGroups h))\<rparr>)"
  using register_groups_no_error[of "group_reports env" "ip h" "cdnGroups h"]
  by (cases "register_groups (group_reports env) (ip h) (cdnGroups h)")
     (simp add: registerToCdnRotations_def)

lemma registerToNoCdnRotations_result:
  "registerToNoCdnRotations env h = (None, h\<lparr>noCdnGroups := snd (register_groups (group_reports env) (ip h) (noCdnGroups h))\<rparr>)"
  using register_groups_no_error[of "group_reports env" "ip h" "noCdnGroups h"]
  by (cases "register_groups (group_reports env) (ip h) (noCdnGroups h)")
     (simp add: registerToNoCdnRotations_def)

lemma registerToCdnRotations_idem:
  "member_of_all (ip h) (cdnGroups h) \<Longrightarrow> registerToCdnRotations env h = (None, h)"
  by (simp add: registerToCdnRotations_def register_groups_idem)

lemma registerToNoCdnRotations_idem:
  "member_of_all (ip h) (noCdnGroups h) \<Longrightarrow> registerToNoCdnRotations env h = (None, h)"
  by (simp add: registerToNoCdnRotations_def register_groups_idem)

text \<open>What a host registration step can change: the one record field, and the world.\<close>

lemma registerCdnHost_cases:
  "registerCdnHost env (h, w) = (e, h', w') \<Longrightarrow> \<exists>r. h' = h\<lparr>cdnRecord := r\<rparr>"
  by (cases "cflutil_Register env (name h) (ip h) w")
     (auto simp: registerCdnHost_def Let_def split: if_splits prod.splits
           intro: exI[of _ "cdnRecord h"])

lemma registerNoCdnHost_cases:
  "registerNoCdnHost env (h, w) = (e, h', w') \<Longrightarrow> \<exists>r. h' = h\<lparr>noCdnRecord := r\<rparr>"
  by (cases "cflutil_Register env (noCdnPrefix env @ name h) (ip h) w")
     (auto simp: registerNoCdnHost_def Let_def split: if_splits prod.splits
           intro: exI[of _ "noCdnRecord h"])

lemma registerCdn_ok:
  assumes "registerCdn env (h, w) = (None, h1, w1)"
  shows "\<exists>r. registerCdnHost env (h, w) = (None, h\<lparr>cdnRecord := r\<rparr>, w1)
             \<and> h1 = h\<lparr>cdnRecord := r,
                     cdnGroups := snd (register_groups (group_reports env) (ip h) (cdnGroups h))\<rparr>"
proof -
  obtain e h' w' where r: "registerCdnHost env (h, w) = (e, h', w')" by (metis prod_cases3)
  from registerCdnHost_cases[OF r] obtain x where h': "h' = h\<lparr>cdnRecord := x\<rparr>" by blast
  from assms r have "e = None" by (auto simp: registerCdn_def split: option.splits prod.splits)
  with assms r h' show ?thesis
    by (auto simp: registerCdn_def registerToCdnRotations_result)
qed

lemma registerNoCdn_ok:
  assumes "registerNoCdn env (h, w) = (None, h1, w1)"
  shows "\<exists>r. registerNoCdnHost env (h, w) = (None, h\<lparr>noCdnRecord := r\<rparr>, w1)
             \<and> h1 = h\<lparr>noCdnRecord := r,
                     noCdnGroups := snd (register_groups (group_reports env) (ip h) (noCdnGroups h))\<rparr>"
proof -
  obtain e h' w' where r: "registerNoCdnHost env (h, w) = (e, h', w')" by (metis prod_cases3)
  from registerNoCdnHost_cases[OF r] obtain x where h': "h' = h\<lparr>noCdnRecord := x\<rparr>" by blast
  from assms r have "e = None" by (auto simp: registerNoCdn_def split: option.splits prod.splits)
  with assms r h' show ?thesis
    by (auto simp: registerNoCdn_def registerToNoCdnRotations_result)
qed


lemma register_ok:
  assumes "register env (h, w) = (None, h1, w1)"
  shows "\<exists>hm wm. registerCdn env (h, w) = (None, hm, wm)
           \<and> (if deployed h then registerNoCdn env (hm, wm) = (None, h1, w1)
               else h1 = hm \<and> w1 = wm)
           \<and> deployed hm = deployed h"
proof -
  obtain e hm wm where r: "registerCdn env (h, w) = (e, hm, wm)" by (metis prod_cases3)
  from assms r have e: "e = None" by (auto simp: register_def split: option.splits)
  from registerCdn_ok[OF r[unfolded e]] have d: "deployed hm = deployed h"
    by (auto simp: deployed_def)
  from assms r e d show ?thesis by (auto simp: register_def split: if_splits)
qed

lemma register_twice:
  assumes first: "register env (h, w) = (None, h1, w1)"
      and dup1: "cdnRecord h1 = None \<longrightarrow>
                   (\<exists>e w2. cflutil_Register env (name h1) (ip h1) w1 = ((None, Some e), w2)
                           \<and> isDuplicateError e)"
      and dup2: "deployed h1 \<and> noCdnRecord h1 = None \<longrightarrow>
                   (\<exists>e w3. cflutil_Register env (noCdnPrefix env @ name h1) (ip h1)
                              (snd (snd (registerCdnHost env (h1, w1)))) = ((None, Some e), w3)
                           \<and> isDuplicateError e)"
  shows "\<exists>w'. register env (h1, w1) = (None, h1, w')"
proof -
  from register_ok[OF first] obtain hm wm
    where cdn: "registerCdn env (h, w) = (None, hm, wm)"
      and rest: "if deployed h then registerNoCdn env (hm, wm) = (None, h1, w1)
                 else h1 = hm \<and> w1 = wm"
      and dm: "deployed hm = deployed h" by blast
  from registerCdn_ok[OF cdn] obtain r
    where hm: "hm = h\<lparr>cdnRecord := r,
                 cdnGroups := snd (register_groups (group_reports env) (ip h) (cdnGroups h))\<rparr>"
    by blast
  have mem1: "member_of_all (ip hm) (cdnGroups hm)"
    by (simp add: hm register_groups_members)
  have h1: "member_of_all (ip h1) (cdnGroups h1) \<and> deployed h1 = deployed h
            \<and> (deployed h \<longrightarrow> member_of_all (ip h1) (noCdnGroups h1))"
  proof (cases "deployed h")
    case False
    with rest mem1 dm show ?thesis by simp
  next
    case True
    with rest have "registerNoCdn env (hm, wm) = (None, h1, w1)" by simp
    from registerNoCdn_ok[OF this] obtain r' where
      "h1 = hm\<lparr>noCdnRecord := r',
            noCdnGroups := snd (register_groups (group_reports env) (ip hm) (noCdnGroups hm))\<rparr>"
      by blast
    with mem1 dm True show ?thesis
      using register_groups_members[of "ip hm" "group_reports env" "noCdnGroups hm"]
      by (simp add: deployed_def)
  qed
  obtain wa where a: "registerCdnHost env (h1, w1) = (None, h1, wa)"
  proof (cases "cdnRecord h1 = None")
    case False
    then have "registerCdnHost env (h1, w1) = (None, h1, w1)"
      by (simp add: registerCdnHost_def)
    then show ?thesis using that by blast
  next
    case True
    with dup1 obtain e w2
      where "cflutil_Register env (name h1) (ip h1) w1 = ((None, Some e), w2)"
        and "isDuplicateError e" by blast
    with True have "registerCdnHost env (h1, w1) = (None, h1\<lparr>cdnRecord := None\<rparr>, w2)"
      by (simp add: registerCdnHost_def)
    moreover from True have "h1\<lparr>cdnRecord := None\<rparr> = h1" by simp
    ultimately show ?thesis using that by simp
  qed
  from a h1 have b: "registerCdn env (h1, w1) = (None, h1, wa)"
    by (simp add: registerCdn_def registerToCdnRotations_idem)
  show ?thesis
  proof (cases "deployed h1")
    case False
    with b show ?thesis by (simp add: register_def)
  next
    case True
    obtain wb where c: "registerNoCdnHost env (h1, wa) = (None, h1, wb)"
    proof (cases "noCdnRecord h1 = None")
      case False
      then have "registerNoCdnHost env (h1, wa) = (None, h1, wa)"
        by (simp add: registerNoCdnHost_def)
      then show ?thesis using that by blast
    next
      case n: True
      with dup2 True a obtain e w3
        where "cflutil_Register env (noCdnPrefix env @ name h1) (ip h1) wa = ((None, Some e), w3)"
          and "isDuplicateError e" by auto
      with n have "registerNoCdnHost env (h1, wa) = (None, h1\<lparr>noCdnRecord := None\<rparr>, w3)"
        by (simp add: registerNoCdnHost_def)
      moreover from n have "h1\<lparr>noCdnRecord := None\<rparr> = h1" by simp
      ultimately show ?thesis using that by simp
    qed
    from c h1 True have "registerNoCdn env (h1, wa) = (None, h1, wb)"
      by (simp add: registerNoCdn_def registerToNoCdnRotations_idem)
    with b True show ?thesis by (simp add: register_def)
  qed
qed

text \<open>
  C6. A create call of the DNS provider that reports the duplicate condition is treated
  as success, for the primary and for the secondary record: no error is returned and the
  handle that came with the reply is stored. A rotation group that already holds the host
  makes the rotation loops return no error and change nothing, whether the group stays
  silent or reports the duplicate condition. So when a run of \<^verbatim>\<open>register\<close> has returned
  no error, and the provider still reports the duplicate condition for each record whose
  handle the host does not hold, a second run right after it returns no error and leaves
  the host, with its record handles and its memberships, exactly as the first run left it.
\<close>

theorem registration_idempotent:
  "(cdnRecord h = None \<and> cflutil_Register env (name h) (ip h) w = ((rec, Some e), w')
      \<and> isDuplicateError e
      \<longrightarrow> registerCdnHost env (h, w) = (None, h\<lparr>cdnRecord := rec\<rparr>, w'))
   \<and> (noCdnRecord h = None
        \<and> cflutil_Register env (noCdnPrefix env @ name h) (ip h) w = ((rec, Some e), w')
        \<and> isDuplicateError e
      \<longrightarrow> registerNoCdnHost env (h, w) = (None, h\<lparr>noCdnRecord := rec\<rparr>, w'))
   \<and> (member_of_all (ip h) (cdnGroups h) \<longrightarrow> registerToCdnRotations env h = (None, h))
   \<and> (member_of_all (ip h) (noCdnGroups h) \<longrightarrow> registerToNoCdnRotations env h = (None, h))
   \<and> (register env (h, w) = (None, h1, w1)
        \<and> (cdnRecord h1 = None \<longrightarrow>
              (\<exists>e w2. cflutil_Register env (name h1) (ip h1) w1 = ((None, Some e), w2)
                      \<and> isDuplicateError e))
        \<and> (deployed h1 \<and> noCdnRecord h1 = None \<longrightarrow>
              (\<exists>e w3. cflutil_Register env (noCdnPrefix env @ name h1) (ip h1)
                         (snd (snd (registerCdnHost env (h1, w1)))) = ((None, Some e), w3)
                      \<and> isDuplicateError e))
      \<longrightarrow> (\<exists>w2. register env (h1, w1) = (None, h1, w2)))"
proof (intro conjI impI)
  assume "cdnRecord h = None \<and> cflutil_Register env (name h) (ip h) w = ((rec, Some e), w')
      \<and> isDuplicateError e"
  then show "registerCdnHost env (h, w) = (None, h\<lparr>cdnRecord := rec\<rparr>, w')"
    by (simp add: registerCdnHost_def)
next
  assume "noCdnRecord h = None
        \<and> cflutil_Register env (noCdnPrefix env @ name h) (ip h) w = ((rec, Some e), w')
        \<and> isDuplicateError e"
  then show "registerNoCdnHost env (h, w) = (None, h\<lparr>noCdnRecord := rec\<rparr>, w')"
    by (simp add: registerNoCdnHost_def)
next
  assume "member_of_all (ip h) (cdnGroups h)"
  then show "registerToCdnRotations env h = (None, h)" by (rule registerToCdnRotations_idem)
next
  assume "member_of_all (ip h) (noCdnGroups h)"
  then show "registerToNoCdnRotations env h = (None, h)" by (rule registerToNoCdnRotations_idem)
next
  assume a: "register env (h, w) = (None, h1, w1)
        \<and> (cdnRecord h1 = None \<longrightarrow>
              (\<exists>e w2. cflutil_Register env (name h1) (ip h1) w1 = ((None, Some e), w2)
                      \<and> isDuplicateError e))
        \<and> (deployed h1 \<and> noCdnRecord h1 = None \<longrightarrow>
              (\<exists>e w3. cflutil_Register env (noCdnPrefix env @ name h1) (ip h1)
                         (snd (snd (registerCdnHost env (h1, w1)))) = ((None, Some e), w3)
                      \<and> isDuplicateError e))"
  show "\<exists>w2. register env (h1, w1) = (None, h1, w2)"
    by (rule register_twice[of env h w h1 w1]) (use a in blast)+
qed

theorem registration_idempotent_witness:
  "register test_env (deployed_peer1, both_records) = (None, registered_peer1, both_records)
   \<and> cdnRecord registered_peer1 = None \<and> noCdnRecord registered_peer1 = None
   \<and> deployed registered_peer1
   \<and> cflutil_Register test_env (name registered_peer1) (ip registered_peer1) both_records
       = ((None, Some ''The record already exists.''), both_records)
   \<and> cflutil_Register test_env (noCdnPrefix test_env @ name registered_peer1)
         (ip registered_peer1) both_records
       = ((None, Some ''The record already exists.''), both_records)
   \<and> isDuplicateError ''The record already exists.''
   \<and> fst (register test_env (registered_peer1, both_records)) = None
   \<and> fst (snd (register test_env (registered_peer1, both_records))) = registered_peer1"
proof -
  have 1: "register test_env (deployed_peer1, both_records)
             = (None, registered_peer1, both_records)"
    by (simp add: deployed_peer1_def registered_peer1_def both_records_def model_defs fixture_defs)
  have 2: "cdnRecord registered_peer1 = None" "noCdnRecord registered_peer1 = None"
    "deployed registered_peer1"
    by (simp_all add: deployed_peer1_def registered_peer1_def deployed_def fixture_defs)
  have 3: "cflutil_Register test_env (name registered_peer1) (ip registered_peer1) both_records
       = ((None, Some ''The record already exists.''), both_records)"
    by (simp add: deployed_peer1_def registered_peer1_def both_records_def fixture_defs)
  have 4: "cflutil_Register test_env (noCdnPrefix test_env @ name registered_peer1)
         (ip registered_peer1) both_records
       = ((None, Some ''The record already exists.''), both_records)"
    by (simp add: deployed_peer1_def registered_peer1_def both_records_def fixture_defs)
  have 5: "isDuplicateError ''The record already exists.''" by (rule duplicate_text)
  have 6: "snd (snd (registerCdnHost test_env (registered_peer1, both_records))) = both_records"
    using 2 3 5 by (simp add: registerCdnHost_def)
  have "\<exists>w2. register test_env (registered_peer1, both_records) = (None, registered_peer1, w2)"
    using registration_idempotent [where env = test_env and h = deployed_peer1
        and w = both_records and ?h1.0 = registered_peer1 and ?w1.0 = both_records]
      1 2 3 4 5 6 by simp
  then have "fst (register test_env (registered_peer1, both_records)) = None"
    "fst (snd (register test_env (registered_peer1, both_records))) = registered_peer1"
    by auto
  with 1 2 3 4 5 show ?thesis by blast
qed

subsection \<open>The secondary registration\<close>
















end
